theory Spec2Isabelle
  imports
    Complex_Main
    "HOL-Library.Char_ord"
    "HOL-Library.List_Lexorder"
    "HOL-Library.Product_Lexorder"
    "HOL-Library.Multiset"
begin

section \<open>Stops per commune: the data\<close>

text \<open>
  The script \<^verbatim>\<open>create_stops_by_commune.py\<close> works on pandas and geopandas frames.
  A frame is modelled by the list of its rows, in order.  A text cell that holds no value
  (NaN) is \<open>None\<close>; the text cells of a row are a function from the column label.
\<close>

type_synonym row = "string \<Rightarrow> string option"

text \<open>A line of the stop file: the two columns the script names.  A missing coordinate is
  \<open>None\<close>; the other columns of the file are carried along by pandas and read nowhere.\<close>

record stop =
  stop_lat :: "real option"
  stop_lon :: "real option"

text \<open>A shapely point: \<open>Point(lon, lat)\<close>, so \<open>geom_x\<close> is the longitude.\<close>

record point =
  geom_x :: "real option"
  geom_y :: "real option"

text \<open>A row of the stop frame once the geometry column is set: its index label, the line
  of the file and the point.\<close>

record point_row =
  idx :: nat
  srow :: stop
  geometry :: point

record stops_gdf =
  crs :: string
  prows :: "point_row list"

text \<open>A commune: its properties (the non-geometry columns) and its polygon.  The geometry
  type \<open>'g\<close> and the three shapely/pyproj operations on it are parameters.\<close>

record 'g commune =
  attrs :: row
  cgeometry :: 'g

record 'g communes_gdf =
  ccrs :: string
  ccolumns :: "string list"
  features :: "'g commune list"

record 'g shapely =
  geom_within :: "point \<Rightarrow> 'g \<Rightarrow> bool"
  distance :: "point \<Rightarrow> 'g \<Rightarrow> real"
  to_crs :: "string \<Rightarrow> string \<Rightarrow> 'g \<Rightarrow> 'g"

text \<open>A row of the join: the stop's row and the text cells the join added.\<close>

record joined_row =
  left :: point_row
  cells :: row

record joined_gdf =
  columns :: "string list"
  rows :: "joined_row list"

text \<open>A row of the result, with the five columns of line 194.\<close>

record agg =
  code_dept_commune :: string
  code_departement :: string
  code_commune_INSEE :: string
  nom_commune :: string
  nb_arrets :: nat

text \<open>The exceptions: the \<open>KeyError\<close> of a column that is not there, the \<open>IndexError\<close> of a
  position past the end, and the \<open>ValueError\<close> of line 165 together with the column list
  printed on line 164.\<close>

datatype error = KeyError string | IndexError | ValueError string "string list"

section \<open>Step 4: counting the stops of each commune\<close>

text \<open>\<open>str.lower\<close> on the bytes of a label: the 26 capitals of ASCII.  A character beyond
  ASCII is bytes from 128 up in UTF-8, none of them a letter of an alias.\<close>

definition lower_char :: "char \<Rightarrow> char" where
  "lower_char c =
     (case map_of (zip ''ABCDEFGHIJKLMNOPQRSTUVWXYZ'' ''abcdefghijklmnopqrstuvwxyz'') c of
        Some d \<Rightarrow> d
      | None \<Rightarrow> c)"

definition lower :: "string \<Rightarrow> string" where
  "lower s = map lower_char s"

definition code_aliases :: "string list" where
  "code_aliases = [''code'', ''code_insee'', ''codgeo'', ''insee'']"

definition nom_aliases :: "string list" where
  "nom_aliases = [''nom'', ''name'', ''libelle'', ''nom_commune'']"

text \<open>The loop of lines 156 to 161, from the pair \<open>(code_col, nom_col)\<close> it has reached.\<close>

fun find_cols ::
  "string list \<Rightarrow> string option \<times> string option \<Rightarrow> string option \<times> string option" where
  "find_cols [] (code_col, nom_col) = (code_col, nom_col)"
| "find_cols (col # cols) (code_col, nom_col) =
     (let col_lower = lower col
      in find_cols cols
           (if col_lower \<in> set code_aliases then Some col else code_col,
            if col_lower \<in> set nom_aliases then Some col else nom_col))"

text \<open>\<open>groupby(keys).size().reset_index()\<close>: the rows with a missing key are left out, the
  groups come in the order of their keys, each with the number of its rows.\<close>

definition groupby_size :: "('r \<Rightarrow> 'k option) \<Rightarrow> 'r list \<Rightarrow> ('k :: linorder \<times> nat) list" where
  "groupby_size key rs =
     (let ks = List.map_filter key rs
      in map (\<lambda>k. (k, count_list ks k)) (sort (remdups ks)))"

definition key2 :: "string \<Rightarrow> string \<Rightarrow> joined_row \<Rightarrow> (string \<times> string) option" where
  "key2 code_col nom_col r =
     (case cells r code_col of
        None \<Rightarrow> None
      | Some c \<Rightarrow> (case cells r nom_col of None \<Rightarrow> None | Some n \<Rightarrow> Some (c, n)))"

definition startswith :: "string \<Rightarrow> string \<Rightarrow> bool" where
  "startswith s p = (take (length p) s = p)"

text \<open>Lines 182 to 186.  The identifiers are text, on which \<open>str\<close> is the identity.\<close>

definition get_dept_code :: "string \<Rightarrow> string" where
  "get_dept_code code_insee =
     (let code_str = code_insee
      in if startswith code_str ''97'' \<or> startswith code_str ''98''
         then take 3 code_str
         else take 2 code_str)"

text \<open>Lines 188 to 194 on one group: the department code, then the composite key.\<close>

definition make_agg :: "string \<Rightarrow> string \<Rightarrow> nat \<Rightarrow> agg" where
  "make_agg code nom n =
     (let dept = get_dept_code code
      in \<lparr>code_dept_commune = dept @ ''-'' @ code,
          code_departement = dept,
          code_commune_INSEE = code,
          nom_commune = nom,
          nb_arrets = n\<rparr>)"

text \<open>\<open>sort_values('nb_arrets', ascending=False)\<close>: pandas turns the column round, sorts it
  upwards and turns the outcome round again.  Its default sort promises no order among
  equal counts; the insertion sort here is one of the orders it may give.\<close>

definition sort_values_desc :: "agg list \<Rightarrow> agg list" where
  "sort_values_desc result = rev (sort_key nb_arrets (rev result))"

definition count_stops_by_commune :: "joined_gdf \<Rightarrow> error + agg list" where
  "count_stops_by_commune joined_gdf =
     (case find_cols (columns joined_gdf) (None, None) of
        (None, nom_col) \<Rightarrow>
          Inl (ValueError ''Impossible de trouver la colonne du code INSEE'' (columns joined_gdf))
      | (Some code_col, nom_col) \<Rightarrow>
          (let kept = filter (\<lambda>r. cells r code_col \<noteq> None) (rows joined_gdf);
               result =
                 (case nom_col of
                    Some nom \<Rightarrow>
                      map (\<lambda>((c, n), k). make_agg c n k) (groupby_size (key2 code_col nom) kept)
                  | None \<Rightarrow>
                      map (\<lambda>(c, k). make_agg c '''' k) (groupby_size (\<lambda>r. cells r code_col) kept))
           in Inr (sort_values_desc result)))"


section \<open>Step 2: loading the stops\<close>

text \<open>Lines 56 to 63.  \<open>read_csv\<close> numbers the lines of the file from 0; \<open>dropna\<close> leaves
  out the lines with a missing coordinate and keeps the labels of the others.\<close>

definition load_stops :: "stop list \<Rightarrow> (nat \<times> stop) list" where
  "load_stops csv_file =
     (let stops = enumerate 0 csv_file
      in filter (\<lambda>(i, s). stop_lat s \<noteq> None \<and> stop_lon s \<noteq> None) stops)"

section \<open>Step 3: points and the spatial join\<close>

text \<open>Lines 73 and 74: the points are built from the two columns zipped, and set beside the
  rows by position.\<close>

definition create_stops_geodataframe :: "(nat \<times> stop) list \<Rightarrow> stops_gdf" where
  "create_stops_geodataframe stops =
     (let geom = map (\<lambda>(lon, lat). \<lparr>geom_x = lon, geom_y = lat\<rparr>)
                   (zip (map (\<lambda>(i, s). stop_lon s) stops) (map (\<lambda>(i, s). stop_lat s) stops))
      in \<lparr>crs = ''EPSG:4326'',
          prows = map (\<lambda>((i, s), g). \<lparr>idx = i, srow = s, geometry = g\<rparr>) (zip stops geom)\<rparr>)"

text \<open>Lines 84 and 85.\<close>

definition reproject :: "'g shapely \<Rightarrow> stops_gdf \<Rightarrow> 'g communes_gdf \<Rightarrow> 'g communes_gdf" where
  "reproject lib stops_gdf communes_gdf =
     (if ccrs communes_gdf \<noteq> crs stops_gdf
      then communes_gdf
             \<lparr>ccrs := crs stops_gdf,
              features :=
                map (\<lambda>f. f\<lparr>cgeometry := to_crs lib (ccrs communes_gdf) (crs stops_gdf) (cgeometry f)\<rparr>)
                  (features communes_gdf)\<rparr>
      else communes_gdf)"

text \<open>The communes a point lies within, in the order of the frame.\<close>

definition containing :: "'g shapely \<Rightarrow> 'g commune list \<Rightarrow> point_row \<Rightarrow> 'g commune list" where
  "containing lib fs p = filter (\<lambda>f. geom_within lib (geometry p) (cgeometry f)) fs"

text \<open>\<open>gpd.sjoin(..., how='left', predicate='within')\<close>, line 88: the stops in their order,
  each with one row for every commune it lies within, or one row of empty cells when it lies
  within none.  The columns are those of the stops, \<open>index_right\<close>, and the properties of the
  communes.\<close>

definition sjoin :: "'g shapely \<Rightarrow> stops_gdf \<Rightarrow> 'g communes_gdf \<Rightarrow> joined_gdf" where
  "sjoin lib stops_gdf communes_gdf =
     \<lparr>columns =
        [''stop_lat'', ''stop_lon'', ''geometry'', ''index_right''] @ ccolumns communes_gdf,
      rows =
        concat (map (\<lambda>p.
          case containing lib (features communes_gdf) p of
            [] \<Rightarrow> [\<lparr>left = p, cells = Map.empty\<rparr>]
          | f # fs \<Rightarrow>
              map (\<lambda>f. \<lparr>left = p, cells = attrs f |` set (ccolumns communes_gdf)\<rparr>) (f # fs))
          (prows stops_gdf))\<rparr>"

text \<open>Line 91.\<close>

definition unmatched_mask :: "joined_gdf \<Rightarrow> bool list" where
  "unmatched_mask joined = map (\<lambda>r. cells r ''code'' = None) (rows joined)"

text \<open>\<open>frame[mask]\<close>, line 100: the rows at the positions where the mask holds.  The mask
  has one entry for each row of the join; where a stop has several rows there it is longer
  than the frame, and a position past the end of the frame is an \<open>IndexError\<close>.\<close>

definition getitem_mask :: "'a list \<Rightarrow> bool list \<Rightarrow> error + 'a list" where
  "getitem_mask frame key =
     (let indexer = filter (\<lambda>i. key ! i) [0..<length key]
      in if list_all (\<lambda>i. i < length frame) indexer
         then Inr (map (\<lambda>i. frame ! i) indexer)
         else Inl IndexError)"

text \<open>The comparisons of lines 104 to 109 on a coordinate that may be NaN: \<open>!=\<close> holds of
  NaN, \<open>>=\<close> and \<open><=\<close> do not.\<close>

definition ne :: "real option \<Rightarrow> real \<Rightarrow> bool" where
  "ne a k = (a \<noteq> Some k)"

definition ge :: "real option \<Rightarrow> real \<Rightarrow> bool" where
  "ge a k = (case a of None \<Rightarrow> False | Some v \<Rightarrow> k \<le> v)"

definition le :: "real option \<Rightarrow> real \<Rightarrow> bool" where
  "le a k = (case a of None \<Rightarrow> False | Some v \<Rightarrow> v \<le> k)"

definition valid_coords_mask :: "point_row \<Rightarrow> bool" where
  "valid_coords_mask p =
     (ne (geom_x (geometry p)) 0 \<and>
      ne (geom_y (geometry p)) 0 \<and>
      ge (geom_y (geometry p)) 41 \<and>
      le (geom_y (geometry p)) 52 \<and>
      ge (geom_x (geometry p)) (- 6) \<and>
      le (geom_x (geometry p)) 10)"

text \<open>Lines 112 and 113.\<close>

definition unmatched_valid :: "point_row list \<Rightarrow> point_row list" where
  "unmatched_valid unmatched_stops = filter valid_coords_mask unmatched_stops"


text \<open>\<open>gpd.sjoin_nearest(..., how='left')\<close>, line 119: each point with the communes at the
  least distance, one row for each, or one row of empty cells when there is no commune.
  The distance column feeds the printed statistics only.\<close>

definition nearest :: "'g shapely \<Rightarrow> 'g commune list \<Rightarrow> point_row \<Rightarrow> 'g commune list" where
  "nearest lib fs p =
     filter (\<lambda>f. list_all (\<lambda>f'. distance lib (geometry p) (cgeometry f)
                                 \<le> distance lib (geometry p) (cgeometry f')) fs) fs"

definition sjoin_nearest :: "'g shapely \<Rightarrow> point_row list \<Rightarrow> 'g communes_gdf \<Rightarrow> joined_row list" where
  "sjoin_nearest lib points communes_gdf =
     concat (map (\<lambda>p.
       case nearest lib (features communes_gdf) p of
         [] \<Rightarrow> [\<lparr>left = p, cells = Map.empty\<rparr>]
       | f # fs \<Rightarrow>
           map (\<lambda>f. \<lparr>left = p, cells = attrs f |` set (ccolumns communes_gdf)\<rparr>) (f # fs))
       points)"

text \<open>Line 136, \<open>joined.loc[joined_nearest.index, col] = joined_nearest[col]\<close>: every row of
  \<open>joined\<close> whose label is a label of \<open>joined_nearest\<close> takes the cell of that row; of several
  rows under one label the last one stays.\<close>

definition loc_assign :: "joined_row list \<Rightarrow> string \<Rightarrow> joined_row list \<Rightarrow> joined_row list" where
  "loc_assign joined_nearest col joined =
     map (\<lambda>r.
       case filter (\<lambda>n. idx (left n) = idx (left r)) joined_nearest of
         [] \<Rightarrow> r
       | n # ns \<Rightarrow> r\<lparr>cells := (cells r)(col := cells (last (n # ns)) col)\<rparr>)
       joined"

text \<open>Lines 79 to 141.  The printed statistics are left out.\<close>

definition spatial_join :: "'g shapely \<Rightarrow> stops_gdf \<Rightarrow> 'g communes_gdf \<Rightarrow> error + joined_gdf" where
  "spatial_join lib stops_gdf communes_gdf0 =
     (let communes_gdf = reproject lib stops_gdf communes_gdf0;
          joined = sjoin lib stops_gdf communes_gdf
      in if ''code'' \<notin> set (columns joined) then Inl (KeyError ''code'')
         else
           (let n_unmatched = length (filter id (unmatched_mask joined))
            in if n_unmatched > 0
               then
                 (case getitem_mask (prows stops_gdf) (unmatched_mask joined) of
                    Inl e \<Rightarrow> Inl e
                  | Inr unmatched_stops \<Rightarrow>
                      if length (unmatched_valid unmatched_stops) > 0
                      then
                        (let joined_nearest =
                               sjoin_nearest lib (unmatched_valid unmatched_stops) communes_gdf
                         in Inr (joined
                              \<lparr>rows := fold (loc_assign joined_nearest) (ccolumns communes_gdf)
                                         (rows joined)\<rparr>))
                      else Inr joined)
               else Inr joined))"

section \<open>The run\<close>

text \<open>Lines 224 to 233 of \<open>main\<close>, from the lines of the stop file and the communes read.\<close>

definition main :: "'g shapely \<Rightarrow> 'g communes_gdf \<Rightarrow> stop list \<Rightarrow> error + agg list" where
  "main lib communes csv_file =
     (let stops = load_stops csv_file;
          stops_gdf = create_stops_geodataframe stops
      in case spatial_join lib stops_gdf communes of
           Inl e \<Rightarrow> Inl e
         | Inr joined \<Rightarrow> count_stops_by_commune joined)"

section \<open>Notions the properties are stated with\<close>

definition is_code_col :: "string \<Rightarrow> bool" where
  "is_code_col col = (lower col \<in> set code_aliases)"

definition is_nom_col :: "string \<Rightarrow> bool" where
  "is_nom_col col = (lower col \<in> set nom_aliases)"

definition last_option :: "'a list \<Rightarrow> 'a option" where
  "last_option xs = (case xs of [] \<Rightarrow> None | _ # _ \<Rightarrow> Some (last xs))"

definition same_group :: "string \<Rightarrow> string option \<Rightarrow> agg \<Rightarrow> joined_row \<Rightarrow> bool" where
  "same_group code_col nom_col r jr =
     (cells jr code_col = Some (code_commune_INSEE r) \<and>
      (case nom_col of None \<Rightarrow> True | Some nom \<Rightarrow> cells jr nom = Some (nom_commune r)))"

text \<open>The join as line 88 leaves it, before the stops without a commune are looked at.\<close>

definition phase1 :: "'g shapely \<Rightarrow> stops_gdf \<Rightarrow> 'g communes_gdf \<Rightarrow> joined_gdf" where
  "phase1 lib stops_gdf communes_gdf = sjoin lib stops_gdf (reproject lib stops_gdf communes_gdf)"

text \<open>No stop lies within two communes: the polygons do not overlap where the stops are.\<close>

definition at_most_one_commune :: "'g shapely \<Rightarrow> stops_gdf \<Rightarrow> 'g communes_gdf \<Rightarrow> bool" where
  "at_most_one_commune lib stops_gdf communes_gdf =
     list_all (\<lambda>p. length (containing lib (features (reproject lib stops_gdf communes_gdf)) p) \<le> 1)
       (prows stops_gdf)"

text \<open>The row of a stop in the join when it lies within at most one commune.\<close>

definition join_row :: "'g shapely \<Rightarrow> 'g communes_gdf \<Rightarrow> point_row \<Rightarrow> joined_row" where
  "join_row lib communes_gdf p =
     (case containing lib (features communes_gdf) p of
        [] \<Rightarrow> \<lparr>left = p, cells = Map.empty\<rparr>
      | f # fs \<Rightarrow> \<lparr>left = p, cells = attrs f |` set (ccolumns communes_gdf)\<rparr>)"

text \<open>What line 136 does to one row of the join.\<close>

definition assign_row :: "joined_row list \<Rightarrow> string \<Rightarrow> joined_row \<Rightarrow> joined_row" where
  "assign_row joined_nearest col r =
     (case filter (\<lambda>n. idx (left n) = idx (left r)) joined_nearest of
        [] \<Rightarrow> r
      | n # ns \<Rightarrow> r\<lparr>cells := (cells r)(col := cells (last (n # ns)) col)\<rparr>)"

text \<open>A row of the join that \<open>dropna\<close> and \<open>groupby\<close> keep: its identifier cell holds a value, and
  so does its name cell when a name column is in use.\<close>

definition has_key :: "string \<Rightarrow> string option \<Rightarrow> joined_row \<Rightarrow> bool" where
  "has_key code_col nom_col jr =
     (cells jr code_col \<noteq> None \<and>
      (case nom_col of None \<Rightarrow> True | Some nom \<Rightarrow> cells jr nom \<noteq> None))"

section \<open>Worked inputs\<close>

text \<open>A stop with both coordinates, as \<open>create_stops_geodataframe\<close> builds its row.\<close>

definition stop_at :: "nat \<Rightarrow> real \<Rightarrow> real \<Rightarrow> point_row" where
  "stop_at i lon lat =
     \<lparr>idx = i, srow = \<lparr>stop_lat = Some lat, stop_lon = Some lon\<rparr>,
      geometry = \<lparr>geom_x = Some lon, geom_y = Some lat\<rparr>\<rparr>"

definition commune_cells :: "string \<Rightarrow> string \<Rightarrow> row" where
  "commune_cells c n = [''code'' \<mapsto> c, ''nom'' \<mapsto> n]"

text \<open>A join of four stops: one in Lyon, two in Paris, one that no commune took.\<close>

definition joined_example :: joined_gdf where
  "joined_example =
     \<lparr>columns = [''stop_lat'', ''stop_lon'', ''geometry'', ''index_right'', ''code'', ''nom''],
      rows = [\<lparr>left = stop_at 0 4.85 45.75, cells = commune_cells ''69123'' ''Lyon''\<rparr>,
              \<lparr>left = stop_at 1 2.3522 48.8566, cells = commune_cells ''75056'' ''Paris''\<rparr>,
              \<lparr>left = stop_at 2 0 0, cells = Map.empty\<rparr>,
              \<lparr>left = stop_at 3 2.35 48.85, cells = commune_cells ''75056'' ''Paris''\<rparr>]\<rparr>"

definition paris_agg :: agg where
  "paris_agg =
     \<lparr>code_dept_commune = ''75-75056'', code_departement = ''75'',
      code_commune_INSEE = ''75056'', nom_commune = ''Paris'', nb_arrets = 2\<rparr>"

definition lyon_agg :: agg where
  "lyon_agg =
     \<lparr>code_dept_commune = ''69-69123'', code_departement = ''69'',
      code_commune_INSEE = ''69123'', nom_commune = ''Lyon'', nb_arrets = 1\<rparr>"

text \<open>A join whose commune columns carry the labels of another source.\<close>

definition joined_other_labels :: joined_gdf where
  "joined_other_labels =
     \<lparr>columns = [''stop_lat'', ''stop_lon'', ''geometry'', ''index_right'', ''INSEE_COM'', ''NOM_COM''],
      rows = [\<lparr>left = stop_at 0 4.85 45.75,
               cells = [''INSEE_COM'' \<mapsto> ''69123'', ''NOM_COM'' \<mapsto> ''Lyon'']\<rparr>]\<rparr>"


text \<open>A join with one stop in a commune whose identifier has two characters.\<close>

definition joined_short_code :: joined_gdf where
  "joined_short_code =
     \<lparr>columns = [''stop_lat'', ''stop_lon'', ''geometry'', ''index_right'', ''code''],
      rows = [\<lparr>left = stop_at 0 2.3522 48.8566, cells = [''code'' \<mapsto> ''97'']\<rparr>]\<rparr>"

definition short_agg :: agg where
  "short_agg =
     \<lparr>code_dept_commune = ''97-97'', code_departement = ''97'',
      code_commune_INSEE = ''97'', nom_commune = [], nb_arrets = 1\<rparr>"

text \<open>A geometry to run the join on: rectangles \<open>(x0, x1, y0, y1)\<close> with sides along the axes,
  a point within one when strictly inside, the distance taken along the axes, and no
  reprojection.\<close>

definition boxes :: "(real \<times> real \<times> real \<times> real) shapely" where
  "boxes =
     \<lparr>geom_within = (\<lambda>p (x0, x1, y0, y1).
        case (geom_x p, geom_y p) of
          (Some x, Some y) \<Rightarrow> x0 < x \<and> x < x1 \<and> y0 < y \<and> y < y1
        | _ \<Rightarrow> False),
      distance = (\<lambda>p (x0, x1, y0, y1).
        case (geom_x p, geom_y p) of
          (Some x, Some y) \<Rightarrow> max 0 (max (x0 - x) (x - x1)) + max 0 (max (y0 - y) (y - y1))
        | _ \<Rightarrow> 0),
      to_crs = (\<lambda>from_crs to_crs g. g)\<rparr>"

text \<open>Two communes, and a stop file of four lines: a stop in the first commune, a line
  without latitude, a stop at (0, 0), and a stop one degree east of the first commune.\<close>

definition communes_example :: "(real \<times> real \<times> real \<times> real) communes_gdf" where
  "communes_example =
     \<lparr>ccrs = ''EPSG:4326'', ccolumns = [''code'', ''nom''],
      features = [\<lparr>attrs = commune_cells ''75056'' ''Paris'', cgeometry = (1, 3, 48, 50)\<rparr>,
                  \<lparr>attrs = commune_cells ''69123'' ''Lyon'', cgeometry = (4, 6, 45, 47)\<rparr>]\<rparr>"

definition csv_example :: "stop list" where
  "csv_example =
     [\<lparr>stop_lat = Some 49, stop_lon = Some 2\<rparr>,
      \<lparr>stop_lat = None, stop_lon = Some 2\<rparr>,
      \<lparr>stop_lat = Some 0, stop_lon = Some 0\<rparr>,
      \<lparr>stop_lat = Some 49, stop_lon = Some 4\<rparr>]"

text \<open>What \<open>spatial_join\<close> returns on them.\<close>

definition joined_run :: joined_gdf where
  "joined_run =
     \<lparr>columns = [''stop_lat'', ''stop_lon'', ''geometry'', ''index_right'', ''code'', ''nom''],
      rows = [\<lparr>left = stop_at 0 2 49, cells = commune_cells ''75056'' ''Paris''\<rparr>,
              \<lparr>left = stop_at 2 0 0, cells = Map.empty\<rparr>,
              \<lparr>left = stop_at 3 4 49, cells = commune_cells ''75056'' ''Paris''\<rparr>]\<rparr>"

text \<open>Two communes that overlap, and one stop in the overlap.\<close>

definition communes_overlap :: "(real \<times> real \<times> real \<times> real) communes_gdf" where
  "communes_overlap =
     \<lparr>ccrs = ''EPSG:4326'', ccolumns = [''code'', ''nom''],
      features = [\<lparr>attrs = commune_cells ''75056'' ''Paris'', cgeometry = (1, 3, 48, 50)\<rparr>,
                  \<lparr>attrs = commune_cells ''75101'' ''Paris 1er'', cgeometry = (1, 4, 48, 51)\<rparr>]\<rparr>"

definition csv_one :: "stop list" where
  "csv_one = [\<lparr>stop_lat = Some 49, stop_lon = Some 2\<rparr>]"

text \<open>Two communes that share an identifier under two names, and a stop in each.\<close>

definition communes_two_names :: "(real \<times> real \<times> real \<times> real) communes_gdf" where
  "communes_two_names =
     \<lparr>ccrs = ''EPSG:4326'', ccolumns = [''code'', ''nom''],
      features = [\<lparr>attrs = commune_cells ''75056'' ''Paris'', cgeometry = (1, 3, 48, 50)\<rparr>,
                  \<lparr>attrs = commune_cells ''75056'' ''Paname'', cgeometry = (3, 5, 48, 50)\<rparr>]\<rparr>"

definition csv_two :: "stop list" where
  "csv_two = [\<lparr>stop_lat = Some 49, stop_lon = Some 2\<rparr>, \<lparr>stop_lat = Some 49, stop_lon = Some 4\<rparr>]"

text \<open>The joins and the results of the run on these inputs.\<close>

definition joined_overlap :: joined_gdf where
  "joined_overlap =
     \<lparr>columns = [''stop_lat'', ''stop_lon'', ''geometry'', ''index_right'', ''code'', ''nom''],
      rows = [\<lparr>left = stop_at 0 2 49, cells = commune_cells ''75056'' ''Paris''\<rparr>,
              \<lparr>left = stop_at 0 2 49, cells = commune_cells ''75101'' ''Paris 1er''\<rparr>]\<rparr>"

definition joined_two_names :: joined_gdf where
  "joined_two_names =
     \<lparr>columns = [''stop_lat'', ''stop_lon'', ''geometry'', ''index_right'', ''code'', ''nom''],
      rows = [\<lparr>left = stop_at 0 2 49, cells = commune_cells ''75056'' ''Paris''\<rparr>,
              \<lparr>left = stop_at 1 4 49, cells = commune_cells ''75056'' ''Paname''\<rparr>]\<rparr>"

definition overlap_result :: "agg list" where
  "overlap_result =
     [\<lparr>code_dept_commune = ''75-75056'', code_departement = ''75'',
       code_commune_INSEE = ''75056'', nom_commune = ''Paris'', nb_arrets = 1\<rparr>,
      \<lparr>code_dept_commune = ''75-75101'', code_departement = ''75'',
       code_commune_INSEE = ''75101'', nom_commune = ''Paris 1er'', nb_arrets = 1\<rparr>]"

definition two_names_result :: "agg list" where
  "two_names_result =
     [\<lparr>code_dept_commune = ''75-75056'', code_departement = ''75'',
       code_commune_INSEE = ''75056'', nom_commune = ''Paname'', nb_arrets = 1\<rparr>,
      \<lparr>code_dept_commune = ''75-75056'', code_departement = ''75'',
       code_commune_INSEE = ''75056'', nom_commune = ''Paris'', nb_arrets = 1\<rparr>]"

section \<open>The column detection\<close>

lemma find_cols_acc:
  "find_cols cols (a, b) =
     (case last_option (filter is_code_col cols) of None \<Rightarrow> a | Some c \<Rightarrow> Some c,
      case last_option (filter is_nom_col cols) of None \<Rightarrow> b | Some c \<Rightarrow> Some c)"
proof (induction cols arbitrary: a b)
  case Nil
  show ?case by (simp add: last_option_def)
next
  case (Cons col cols)
  show ?case
    by (simp add: Cons.IH Let_def is_code_col_def is_nom_col_def last_option_def
          split: list.splits)
qed

lemma find_cols_last:
  "find_cols cols (None, None) =
     (last_option (filter is_code_col cols), last_option (filter is_nom_col cols))"
  by (simp add: find_cols_acc split: option.splits)

lemma last_option_None [simp]: "last_option xs = None \<longleftrightarrow> xs = []"
  by (simp add: last_option_def split: list.splits)

lemma last_option_Some: "last_option xs = Some x \<Longrightarrow> x \<in> set xs"
  by (auto simp: last_option_def split: list.splits)


section \<open>The groups and their counts\<close>


lemma count_list_map_filter:
  "count_list (List.map_filter key rs) k = length (filter (\<lambda>r. key r = Some k) rs)"
  by (induction rs) (auto simp: List.map_filter_simps split: option.splits)

lemma set_map_filter: "set (List.map_filter key rs) = {k. \<exists>r \<in> set rs. key r = Some k}"
  by (induction rs) (auto simp: List.map_filter_simps split: option.splits)

lemma length_map_filter:
  "length (List.map_filter key rs) = length (filter (\<lambda>r. key r \<noteq> None) rs)"
  by (induction rs) (auto simp: List.map_filter_simps split: option.splits)

lemma groupby_size_mem:
  "(k, n) \<in> set (groupby_size key rs) \<longleftrightarrow>
     (\<exists>r \<in> set rs. key r = Some k) \<and> n = length (filter (\<lambda>r. key r = Some k) rs)"
  by (auto simp: groupby_size_def Let_def set_map_filter count_list_map_filter)

lemma sum_count_remdups:
  "sum_list (map (count_list ks) (remdups ks)) = length ks"
proof -
  have "sum_list (map (count_list ks) (remdups ks)) = sum (count_list ks) (set ks)"
    by (simp add: sum_list_distinct_conv_sum_set)
  also have "\<dots> = length ks"
    by (rule sum_count_set) simp_all
  finally show ?thesis .
qed

lemma groupby_size_sum:
  "sum_list (map snd (groupby_size key rs)) = length (filter (\<lambda>r. key r \<noteq> None) rs)"
proof -
  let ?ks = "List.map_filter key rs"
  have "sum_list (map snd (groupby_size key rs)) = sum_list (map (count_list ?ks) (sort (remdups ?ks)))"
    by (simp add: groupby_size_def Let_def comp_def)
  also have "\<dots> = sum_mset (image_mset (count_list ?ks) (mset (sort (remdups ?ks))))"
    by (metis sum_mset_sum_list mset_map)
  also have "\<dots> = sum_list (map (count_list ?ks) (remdups ?ks))"
    by (simp flip: mset_map sum_mset_sum_list)
  finally show ?thesis by (simp add: sum_count_remdups length_map_filter)
qed

lemma set_sort_values_desc [simp]: "set (sort_values_desc xs) = set xs"
  by (simp add: sort_values_desc_def)

lemma mset_sort_values_desc [simp]: "mset (sort_values_desc xs) = mset xs"
  by (simp add: sort_values_desc_def)

lemma sorted_sort_values_desc:
  "sorted_wrt (\<lambda>a b. b \<le> a) (map nb_arrets (sort_values_desc xs))"
proof -
  have "sorted (map nb_arrets (sort_key nb_arrets (rev xs)))"
    by (rule sorted_sort_key)
  then have "sorted (rev (map nb_arrets (sort_values_desc xs)))"
    by (simp add: sort_values_desc_def rev_map)
  then show ?thesis
    by (simp add: sorted_wrt_rev)
qed

lemma make_agg_sel [simp]:
  "code_commune_INSEE (make_agg c n k) = c"
  "nom_commune (make_agg c n k) = n"
  "nb_arrets (make_agg c n k) = k"
  "code_departement (make_agg c n k) = get_dept_code c"
  "code_dept_commune (make_agg c n k) = get_dept_code c @ ''-'' @ c"
  by (simp_all add: make_agg_def Let_def)

lemma key2_Some:
  "key2 cc nom jr = Some (c, n) \<longleftrightarrow> cells jr cc = Some c \<and> cells jr nom = Some n"
  by (auto simp: key2_def split: option.splits)

lemma key2_None:
  "key2 cc nom jr = None \<longleftrightarrow> cells jr cc = None \<or> cells jr nom = None"
  by (auto simp: key2_def split: option.splits)

lemma filter_kept_code:
  "filter (\<lambda>r. cells r cc = Some c) (filter (\<lambda>r. cells r cc \<noteq> None) rs)
     = filter (\<lambda>r. cells r cc = Some c) rs"
  by (induction rs) auto

lemma filter_kept_key2:
  "filter (\<lambda>r. key2 cc nom r = Some (c, n)) (filter (\<lambda>r. cells r cc \<noteq> None) rs)
     = filter (\<lambda>r. cells r cc = Some c \<and> cells r nom = Some n) rs"
  by (induction rs) (auto simp: key2_Some)

lemma count_stops_None:
  assumes "find_cols (columns j) (None, None) = (Some cc, None)"
  shows "count_stops_by_commune j =
     Inr (sort_values_desc (map (\<lambda>(c, k). make_agg c [] k)
       (groupby_size (\<lambda>r. cells r cc) (filter (\<lambda>r. cells r cc \<noteq> None) (rows j)))))"
  using assms by (simp add: count_stops_by_commune_def Let_def)

lemma count_stops_Some:
  assumes "find_cols (columns j) (None, None) = (Some cc, Some nom)"
  shows "count_stops_by_commune j =
     Inr (sort_values_desc (map (\<lambda>((c, n), k). make_agg c n k)
       (groupby_size (key2 cc nom) (filter (\<lambda>r. cells r cc \<noteq> None) (rows j)))))"
  using assms by (simp add: count_stops_by_commune_def Let_def)

lemma count_stops_group:
  assumes cols: "find_cols (columns j) (None, None) = (Some cc, nc)"
    and res: "count_stops_by_commune j = Inr result"
    and r: "r \<in> set result"
  shows "nb_arrets r = length (filter (same_group cc nc r) (rows j))"
    and "\<exists>jr \<in> set (rows j). same_group cc nc r jr"
    and "r = make_agg (code_commune_INSEE r) (nom_commune r) (nb_arrets r)"
proof -
  have "nb_arrets r = length (filter (same_group cc nc r) (rows j)) \<and>
        (\<exists>jr \<in> set (rows j). same_group cc nc r jr) \<and>
        r = make_agg (code_commune_INSEE r) (nom_commune r) (nb_arrets r)"
  proof (cases nc)
    case None
    with cols res have "result = sort_values_desc (map (\<lambda>(c, k). make_agg c [] k)
       (groupby_size (\<lambda>r. cells r cc) (filter (\<lambda>r. cells r cc \<noteq> None) (rows j))))"
      by (simp add: count_stops_None)
    with r obtain c k where ck: "(c, k) \<in> set (groupby_size (\<lambda>r. cells r cc)
        (filter (\<lambda>r. cells r cc \<noteq> None) (rows j)))" and req: "r = make_agg c [] k"
      by auto
    from ck have "k = length (filter (\<lambda>r. cells r cc = Some c)
          (filter (\<lambda>r. cells r cc \<noteq> None) (rows j)))"
      and "\<exists>jr \<in> set (filter (\<lambda>r. cells r cc \<noteq> None) (rows j)). cells jr cc = Some c"
      unfolding groupby_size_mem by blast+
    then have "k = length (filter (\<lambda>r. cells r cc = Some c) (rows j))"
      and "\<exists>jr \<in> set (rows j). cells jr cc = Some c"
      unfolding filter_kept_code by auto
    with req None show ?thesis
      by (simp add: same_group_def [abs_def])
  next
    case (Some nom)
    with cols res have "result = sort_values_desc (map (\<lambda>((c, n), k). make_agg c n k)
       (groupby_size (key2 cc nom) (filter (\<lambda>r. cells r cc \<noteq> None) (rows j))))"
      by (simp add: count_stops_Some)
    with r obtain c n k where ck: "((c, n), k) \<in> set (groupby_size (key2 cc nom)
        (filter (\<lambda>r. cells r cc \<noteq> None) (rows j)))" and req: "r = make_agg c n k"
      by auto
    from ck have "k = length (filter (\<lambda>r. key2 cc nom r = Some (c, n))
          (filter (\<lambda>r. cells r cc \<noteq> None) (rows j)))"
      and "\<exists>jr \<in> set (filter (\<lambda>r. cells r cc \<noteq> None) (rows j)). key2 cc nom jr = Some (c, n)"
      unfolding groupby_size_mem by blast+
    then have "k = length (filter (\<lambda>r. cells r cc = Some c \<and> cells r nom = Some n) (rows j))"
      and "\<exists>jr \<in> set (rows j). cells jr cc = Some c \<and> cells jr nom = Some n"
      unfolding filter_kept_key2 by (auto simp: key2_Some)
    with req Some show ?thesis
      by (simp add: same_group_def [abs_def])
  qed
  then show "nb_arrets r = length (filter (same_group cc nc r) (rows j))"
    and "\<exists>jr \<in> set (rows j). same_group cc nc r jr"
    and "r = make_agg (code_commune_INSEE r) (nom_commune r) (nb_arrets r)"
    by blast+
qed

lemma count_stops_cases:
  "(\<exists>cc nc. find_cols (columns j) (None, None) = (Some cc, nc) \<and> is_code_col cc \<and> cc \<in> set (columns j)
       \<and> (\<exists>result. count_stops_by_commune j = Inr result)) \<or>
   ((\<forall>c \<in> set (columns j). \<not> is_code_col c) \<and>
     count_stops_by_commune j =
       Inl (ValueError ''Impossible de trouver la colonne du code INSEE'' (columns j)))"
proof (cases "filter is_code_col (columns j)")
  case Nil
  then have "\<forall>c \<in> set (columns j). \<not> is_code_col c"
    by (simp add: filter_empty_conv)
  moreover from Nil have "count_stops_by_commune j =
       Inl (ValueError ''Impossible de trouver la colonne du code INSEE'' (columns j))"
    by (simp add: count_stops_by_commune_def find_cols_last last_option_def)
  ultimately show ?thesis by blast
next
  case (Cons c cs)
  then obtain cc where cc: "last_option (filter is_code_col (columns j)) = Some cc"
    by (simp add: last_option_def)
  then have "cc \<in> set (filter is_code_col (columns j))"
    by (rule last_option_Some)
  moreover from cc have "\<exists>result. count_stops_by_commune j = Inr result"
    by (simp add: count_stops_by_commune_def find_cols_last Let_def)
  ultimately show ?thesis using cc
    by (auto simp: find_cols_last)
qed

section \<open>The join under non-overlapping communes\<close>

lemma nth_filter_zip:
  assumes "length xs = length bs"
  shows "map (\<lambda>i. xs ! i) (filter (\<lambda>i. bs ! i) [0..<length bs]) = map fst (filter snd (zip xs bs))"
proof -
  have "zip xs bs = zip (map ((!) xs) [0..<length xs]) (map ((!) bs) [0..<length bs])"
    by (simp add: map_nth)
  also have "\<dots> = map (\<lambda>i. (xs ! i, bs ! i)) [0..<length bs]"
    using assms by (simp add: zip_map_map zip_same_conv_map)
  finally have "zip xs bs = map (\<lambda>i. (xs ! i, bs ! i)) [0..<length bs]" .
  then show ?thesis
    by (simp add: filter_map comp_def)
qed

lemma getitem_mask_aligned:
  assumes "length key = length frame"
  shows "getitem_mask frame key = Inr (map fst (filter snd (zip frame key)))"
proof -
  have "list_all (\<lambda>i. i < length frame) (filter (\<lambda>i. key ! i) [0..<length key])"
    using assms by (simp add: list_all_iff)
  then show ?thesis
    using assms nth_filter_zip [of frame key]
    by (simp add: getitem_mask_def Let_def)
qed

lemma filter_zip_map:
  "map fst (filter snd (zip xs (map h xs))) = filter h xs"
  by (induction xs) auto

lemma sjoin_rows:
  assumes "list_all (\<lambda>p. length (containing lib (features communes_gdf) p) \<le> 1) (prows stops_gdf)"
  shows "rows (sjoin lib stops_gdf communes_gdf) = map (join_row lib communes_gdf) (prows stops_gdf)"
proof -
  have "concat (map (\<lambda>p.
          case containing lib (features communes_gdf) p of
            [] \<Rightarrow> [\<lparr>left = p, cells = Map.empty\<rparr>]
          | f # fs \<Rightarrow>
              map (\<lambda>f. \<lparr>left = p, cells = attrs f |` set (ccolumns communes_gdf)\<rparr>) (f # fs)) ps)
        = map (join_row lib communes_gdf) ps"
    if "list_all (\<lambda>p. length (containing lib (features communes_gdf) p) \<le> 1) ps" for ps
    using that by (induction ps) (auto simp: join_row_def split: list.splits)
  with assms show ?thesis
    by (simp add: sjoin_def)
qed

lemma loc_assign_map: "loc_assign jn col js = map (assign_row jn col) js"
  by (simp add: loc_assign_def assign_row_def [abs_def])

lemma fold_loc_assign: "fold (loc_assign jn) cols js = map (fold (assign_row jn) cols) js"
proof (induction cols arbitrary: js)
  case Nil
  show ?case by (simp add: map_idI)
next
  case (Cons c cols)
  have "fold (loc_assign jn) (c # cols) js = fold (loc_assign jn) cols (loc_assign jn c js)"
    by simp
  also have "\<dots> = map (fold (assign_row jn) cols) (loc_assign jn c js)"
    by (rule Cons.IH)
  also have "\<dots> = map (fold (assign_row jn) (c # cols)) js"
    by (simp add: loc_assign_map)
  finally show ?case .
qed

lemma left_assign_row [simp]: "left (assign_row jn col r) = left r"
  by (simp add: assign_row_def split: list.splits)

lemma left_fold_assign_row [simp]: "left (fold (assign_row jn) cols r) = left r"
  by (induction cols arbitrary: r) simp_all

lemma assign_row_untouched:
  "idx (left r) \<notin> (\<lambda>n. idx (left n)) ` set jn \<Longrightarrow> assign_row jn col r = r"
proof -
  assume "idx (left r) \<notin> (\<lambda>n. idx (left n)) ` set jn"
  then have "filter (\<lambda>n. idx (left n) = idx (left r)) jn = []"
    by (auto simp: filter_empty_conv image_def)
  then show ?thesis by (simp add: assign_row_def)
qed

lemma fold_assign_row_untouched:
  "idx (left r) \<notin> (\<lambda>n. idx (left n)) ` set jn \<Longrightarrow> fold (assign_row jn) cols r = r"
  by (induction cols) (simp_all add: assign_row_untouched)

lemma sjoin_nearest_labels:
  "(\<lambda>n. idx (left n)) ` set (sjoin_nearest lib ps communes_gdf) = idx ` set ps"
  by (induction ps) (auto simp: sjoin_nearest_def split: list.splits)

lemma prows_create:
  "prows (create_stops_geodataframe stops) =
     map (\<lambda>(i, s). \<lparr>idx = i, srow = s, geometry = \<lparr>geom_x = stop_lon s, geom_y = stop_lat s\<rparr>\<rparr>) stops"
  by (induction stops) (auto simp: create_stops_geodataframe_def Let_def)


lemma length_load_stops:
  "length (load_stops csv_file) =
     length (filter (\<lambda>s. stop_lat s \<noteq> None \<and> stop_lon s \<noteq> None) csv_file)"
proof -
  have "length (filter (\<lambda>(i, s). P s) (enumerate n xs)) = length (filter P xs)"
    for P :: "stop \<Rightarrow> bool" and n xs
    by (induction xs arbitrary: n) simp_all
  then show ?thesis
    by (simp add: load_stops_def)
qed




lemma fold_assign_row_Nil [simp]: "fold (assign_row []) cols r = r"
  by (rule fold_assign_row_untouched) simp

lemma phase1_rows:
  assumes "at_most_one_commune lib S C0"
  shows "rows (phase1 lib S C0) = map (join_row lib (reproject lib S C0)) (prows S)"
  using assms by (simp add: phase1_def at_most_one_commune_def sjoin_rows)

lemma phase1_unmatched_stops:
  assumes "at_most_one_commune lib S C0"
  shows "getitem_mask (prows S) (unmatched_mask (phase1 lib S C0)) =
     Inr (filter (\<lambda>p. cells (join_row lib (reproject lib S C0) p) ''code'' = None) (prows S))"
proof -
  let ?h = "\<lambda>p. cells (join_row lib (reproject lib S C0) p) ''code'' = None"
  have m: "unmatched_mask (phase1 lib S C0) = map ?h (prows S)"
    by (simp add: unmatched_mask_def phase1_rows [OF assms] comp_def)
  show ?thesis
    unfolding m by (simp add: getitem_mask_aligned filter_zip_map)
qed

lemma spatial_join_merge:
  assumes amo: "at_most_one_commune lib S C0" and sj: "spatial_join lib S C0 = Inr joined"
  shows "\<exists>jn.
     (\<lambda>n. idx (left n)) ` set jn \<subseteq>
        idx ` {p \<in> set (prows S).
                cells (join_row lib (reproject lib S C0) p) ''code'' = None \<and> valid_coords_mask p} \<and>
     rows joined = map (fold (assign_row jn) (ccolumns (reproject lib S C0))) (rows (phase1 lib S C0)) \<and>
     columns joined = columns (phase1 lib S C0)"
proof -
  let ?C = "reproject lib S C0"
  let ?P = "phase1 lib S C0"
  let ?us = "filter (\<lambda>p. cells (join_row lib ?C p) ''code'' = None) (prows S)"
  let ?jn = "sjoin_nearest lib (unmatched_valid ?us) ?C"
  have same: "\<exists>jn. (\<lambda>n. idx (left n)) ` set jn \<subseteq>
        idx ` {p \<in> set (prows S). cells (join_row lib ?C p) ''code'' = None \<and> valid_coords_mask p} \<and>
     rows ?P = map (fold (assign_row jn) (ccolumns ?C)) (rows ?P) \<and>
     columns ?P = columns ?P"
    by (rule exI [of _ "[]"]) (simp add: map_idI)
  have lab: "(\<lambda>n. idx (left n)) ` set ?jn \<subseteq>
        idx ` {p \<in> set (prows S). cells (join_row lib ?C p) ''code'' = None \<and> valid_coords_mask p}"
    by (auto simp: sjoin_nearest_labels unmatched_valid_def)
  from sj have "joined = ?P \<or> joined = ?P\<lparr>rows := fold (loc_assign ?jn) (ccolumns ?C) (rows ?P)\<rparr>"
    unfolding spatial_join_def Let_def phase1_def [symmetric] phase1_unmatched_stops [OF amo]
    by (auto split: if_splits)
  then show ?thesis
  proof
    assume "joined = ?P"
    with same show ?thesis by simp
  next
    assume "joined = ?P\<lparr>rows := fold (loc_assign ?jn) (ccolumns ?C) (rows ?P)\<rparr>"
    then have "rows joined = map (fold (assign_row ?jn) (ccolumns ?C)) (rows ?P)"
      and "columns joined = columns ?P"
      by (simp_all add: fold_loc_assign)
    with lab show ?thesis by blast
  qed
qed



lemma left_join_row [simp]: "left (join_row lib C p) = p"
  by (simp add: join_row_def split: list.splits)


lemma length_filter_eq_length: "length (filter P xs) = length xs \<longleftrightarrow> (\<forall>x \<in> set xs. P x)"
proof
  assume eq: "length (filter P xs) = length xs"
  show "\<forall>x \<in> set xs. P x"
  proof (rule ccontr)
    assume "\<not> (\<forall>x \<in> set xs. P x)"
    then obtain x where "x \<in> set xs" "\<not> P x" by blast
    then have "length (filter P xs) < length xs" by (rule length_filter_less)
    with eq show False by simp
  qed
next
  assume "\<forall>x \<in> set xs. P x"
  then show "length (filter P xs) = length xs" by simp
qed

lemma filter_key2_kept:
  "filter (\<lambda>r. key2 cc nom r \<noteq> None) (filter (\<lambda>r. cells r cc \<noteq> None) rs)
     = filter (has_key cc (Some nom)) rs"
  by (induction rs) (auto simp: has_key_def key2_None)




lemma sum_nb_sort_values_desc:
  "sum_list (map nb_arrets (sort_values_desc xs)) = sum_list (map nb_arrets xs)"
proof -
  have "mset (map nb_arrets (sort_values_desc xs)) = mset (map nb_arrets xs)"
    by simp
  then show ?thesis
    by (metis sum_mset_sum_list)
qed

lemma count_stops_sum:
  assumes cols: "find_cols (columns j) (None, None) = (Some cc, nc)"
    and res: "count_stops_by_commune j = Inr result"
  shows "sum_list (map nb_arrets result) = length (filter (has_key cc nc) (rows j))"
proof (cases nc)
  case None
  let ?kept = "filter (\<lambda>r. cells r cc \<noteq> None) (rows j)"
  from cols res None have "result = sort_values_desc (map (\<lambda>(c, k). make_agg c [] k)
       (groupby_size (\<lambda>r. cells r cc) ?kept))"
    by (simp add: count_stops_None)
  then have "sum_list (map nb_arrets result) =
      sum_list (map snd (groupby_size (\<lambda>r. cells r cc) ?kept))"
    by (simp add: sum_nb_sort_values_desc comp_def case_prod_unfold)
  also have "\<dots> = length (filter (\<lambda>r. cells r cc \<noteq> None) ?kept)"
    by (rule groupby_size_sum)
  also have "\<dots> = length (filter (has_key cc nc) (rows j))"
    using None by (simp add: has_key_def [abs_def])
  finally show ?thesis .
next
  case (Some nom)
  let ?kept = "filter (\<lambda>r. cells r cc \<noteq> None) (rows j)"
  from cols res Some have "result = sort_values_desc (map (\<lambda>((c, n), k). make_agg c n k)
       (groupby_size (key2 cc nom) ?kept))"
    by (simp add: count_stops_Some)
  then have "sum_list (map nb_arrets result) = sum_list (map snd (groupby_size (key2 cc nom) ?kept))"
    by (simp add: sum_nb_sort_values_desc comp_def case_prod_unfold)
  also have "\<dots> = length (filter (\<lambda>r. key2 cc nom r \<noteq> None) ?kept)"
    by (rule groupby_size_sum)
  also have "\<dots> = length (filter (has_key cc nc) (rows j))"
  proof -
    have "filter (\<lambda>r. key2 cc nom r \<noteq> None) ?kept = filter (has_key cc nc) (rows j)"
      unfolding Some by (rule filter_key2_kept)
    then show ?thesis by (rule arg_cong)
  qed
  finally show ?thesis .
qed



section \<open>The worked run\<close>

lemma prows_example:
  "prows (create_stops_geodataframe (load_stops csv_example)) =
     [stop_at 0 2 49, stop_at 2 0 0, stop_at 3 4 49]"
  by (simp add: prows_create load_stops_def csv_example_def stop_at_def)

lemma stops_example:
  "create_stops_geodataframe (load_stops csv_example) =
     \<lparr>crs = ''EPSG:4326'', prows = [stop_at 0 2 49, stop_at 2 0 0, stop_at 3 4 49]\<rparr>"
  using prows_example by (simp add: create_stops_geodataframe_def Let_def)

lemma reproject_example:
  "reproject boxes \<lparr>crs = ''EPSG:4326'', prows = ps\<rparr> communes_example = communes_example"
  by (simp add: reproject_def communes_example_def)

lemma commune_cells_restrict:
  "commune_cells c n |` {''code'', ''nom''} = commune_cells c n"
  by (auto simp: commune_cells_def restrict_map_def fun_eq_iff)

lemma containing_example:
  "containing boxes (features communes_example) (stop_at 0 2 49)
     = [\<lparr>attrs = commune_cells ''75056'' ''Paris'', cgeometry = (1, 3, 48, 50)\<rparr>]"
  "containing boxes (features communes_example) (stop_at 2 0 0) = []"
  "containing boxes (features communes_example) (stop_at 3 4 49) = []"
  by (simp_all add: containing_def boxes_def communes_example_def stop_at_def)

lemma amo_example:
  "at_most_one_commune boxes (create_stops_geodataframe (load_stops csv_example)) communes_example"
  by (simp add: at_most_one_commune_def stops_example reproject_example containing_example)

lemma phase1_example:
  "phase1 boxes (create_stops_geodataframe (load_stops csv_example)) communes_example =
     \<lparr>columns = [''stop_lat'', ''stop_lon'', ''geometry'', ''index_right'', ''code'', ''nom''],
      rows = [\<lparr>left = stop_at 0 2 49, cells = commune_cells ''75056'' ''Paris''\<rparr>,
              \<lparr>left = stop_at 2 0 0, cells = Map.empty\<rparr>,
              \<lparr>left = stop_at 3 4 49, cells = Map.empty\<rparr>]\<rparr>"
  unfolding phase1_def stops_example reproject_example
  by (simp add: sjoin_def containing_example)
    (simp add: communes_example_def commune_cells_restrict)

lemma nearest_example:
  "nearest boxes (features communes_example) (stop_at 3 4 49)
     = [\<lparr>attrs = commune_cells ''75056'' ''Paris'', cgeometry = (1, 3, 48, 50)\<rparr>]"
  by (simp add: nearest_def boxes_def communes_example_def stop_at_def)

lemma valid_example:
  "\<not> valid_coords_mask (stop_at 2 0 0)" "valid_coords_mask (stop_at 3 4 49)"
  by (simp_all add: valid_coords_mask_def stop_at_def ne_def ge_def le_def)

lemma sjoin_nearest_example:
  "sjoin_nearest boxes [stop_at 3 4 49] communes_example =
     [\<lparr>left = stop_at 3 4 49, cells = commune_cells ''75056'' ''Paris''\<rparr>]"
  by (simp add: sjoin_nearest_def nearest_example)
    (simp add: communes_example_def commune_cells_restrict)

lemma idx_stop_at [simp]: "idx (stop_at i lon lat) = i"
  by (simp add: stop_at_def)

lemma cells_update_example:
  "(Map.empty(''code'' := commune_cells c n ''code''))(''nom'' := commune_cells c n ''nom'') = commune_cells c n"
  by (auto simp: commune_cells_def fun_eq_iff)

lemma spatial_join_example:
  "spatial_join boxes (create_stops_geodataframe (load_stops csv_example)) communes_example
     = Inr joined_run"
proof -
  let ?S = "create_stops_geodataframe (load_stops csv_example)"
  have code: "''code'' \<in> set (columns (phase1 boxes ?S communes_example))"
    by (simp add: phase1_example)
  have mask: "unmatched_mask (phase1 boxes ?S communes_example) = [False, True, True]"
    by (simp add: unmatched_mask_def phase1_example commune_cells_def)
  have get: "getitem_mask (prows ?S) [False, True, True] = Inr [stop_at 2 0 0, stop_at 3 4 49]"
    by (simp add: getitem_mask_aligned prows_example)
  have uv: "unmatched_valid [stop_at 2 0 0, stop_at 3 4 49] = [stop_at 3 4 49]"
    by (simp add: unmatched_valid_def valid_example)
  have cc: "ccolumns communes_example = [''code'', ''nom'']"
    by (simp add: communes_example_def)
  have merge: "loc_assign [\<lparr>left = stop_at 3 4 49, cells = commune_cells ''75056'' ''Paris''\<rparr>] ''nom''
      (loc_assign [\<lparr>left = stop_at 3 4 49, cells = commune_cells ''75056'' ''Paris''\<rparr>] ''code''
        (rows (phase1 boxes ?S communes_example))) = rows joined_run"
    by (simp add: phase1_example loc_assign_def joined_run_def cells_update_example)
  have re: "reproject boxes ?S communes_example = communes_example"
    by (simp add: stops_example reproject_example)
  have sj: "sjoin boxes ?S communes_example = phase1 boxes ?S communes_example"
    by (simp add: phase1_def re)
  have whole: "phase1 boxes ?S communes_example\<lparr>rows := rows joined_run\<rparr> = joined_run"
    by (simp add: phase1_example joined_run_def)
  show ?thesis
    unfolding spatial_join_def Let_def re sj mask
    using code
    by (simp add: get uv sjoin_nearest_example cc merge whole)
qed


lemma find_cols_run: "find_cols (columns joined_run) (None, None) = (Some ''code'', Some ''nom'')"
  by (simp add: joined_run_def lower_def lower_char_def code_aliases_def nom_aliases_def)

lemma count_run: "count_stops_by_commune joined_run = Inr [paris_agg]"
  unfolding count_stops_by_commune_def find_cols_run
  by (simp add: joined_run_def commune_cells_def groupby_size_def key2_def
      List.map_filter_simps sort_values_desc_def make_agg_def get_dept_code_def startswith_def
      Let_def paris_agg_def)

lemma main_example: "main boxes communes_example csv_example = Inr [paris_agg]"
  by (simp add: main_def Let_def spatial_join_example count_run)


section \<open>Runs on communes that overlap or share an identifier\<close>

lemma spatial_join_all_matched:
  assumes "''code'' \<in> set (columns (phase1 lib S C))"
    and "\<forall>r \<in> set (rows (phase1 lib S C)). cells r ''code'' \<noteq> None"
  shows "spatial_join lib S C = Inr (phase1 lib S C)"
proof -
  from assms(2) have "filter id (unmatched_mask (phase1 lib S C)) = []"
    by (auto simp: unmatched_mask_def filter_empty_conv)
  with assms(1) show ?thesis
    unfolding spatial_join_def Let_def phase1_def [symmetric] by simp
qed

lemma stops_one:
  "create_stops_geodataframe (load_stops csv_one) = \<lparr>crs = ''EPSG:4326'', prows = [stop_at 0 2 49]\<rparr>"
  by (simp add: create_stops_geodataframe_def load_stops_def csv_one_def stop_at_def Let_def)

lemma phase1_overlap:
  "phase1 boxes (create_stops_geodataframe (load_stops csv_one)) communes_overlap =
     joined_overlap"
  unfolding phase1_def stops_one
  by (simp add: joined_overlap_def reproject_def sjoin_def containing_def boxes_def communes_overlap_def
      stop_at_def commune_cells_restrict)

lemma spatial_join_overlap:
  "spatial_join boxes (create_stops_geodataframe (load_stops csv_one)) communes_overlap =
     Inr joined_overlap"
proof -
  have "spatial_join boxes (create_stops_geodataframe (load_stops csv_one)) communes_overlap =
      Inr (phase1 boxes (create_stops_geodataframe (load_stops csv_one)) communes_overlap)"
    by (rule spatial_join_all_matched) (simp_all add: phase1_overlap joined_overlap_def commune_cells_def)
  then show ?thesis by (simp add: phase1_overlap)
qed

lemma find_cols_overlap:
  "find_cols (columns joined_overlap) (None, None) = (Some ''code'', Some ''nom'')"
  by (simp add: joined_overlap_def lower_def lower_char_def code_aliases_def nom_aliases_def)

lemma find_cols_two_names:
  "find_cols (columns joined_two_names) (None, None) = (Some ''code'', Some ''nom'')"
  by (simp add: joined_two_names_def lower_def lower_char_def code_aliases_def nom_aliases_def)

lemma stops_two:
  "create_stops_geodataframe (load_stops csv_two) =
     \<lparr>crs = ''EPSG:4326'', prows = [stop_at 0 2 49, stop_at 1 4 49]\<rparr>"
  by (simp add: create_stops_geodataframe_def load_stops_def csv_two_def stop_at_def Let_def)

lemma phase1_two_names:
  "phase1 boxes (create_stops_geodataframe (load_stops csv_two)) communes_two_names =
     joined_two_names"
  unfolding phase1_def stops_two
  by (simp add: joined_two_names_def reproject_def sjoin_def containing_def boxes_def communes_two_names_def
      stop_at_def commune_cells_restrict)

lemma spatial_join_two_names:
  "spatial_join boxes (create_stops_geodataframe (load_stops csv_two)) communes_two_names =
     Inr joined_two_names"
proof -
  have "spatial_join boxes (create_stops_geodataframe (load_stops csv_two)) communes_two_names =
      Inr (phase1 boxes (create_stops_geodataframe (load_stops csv_two)) communes_two_names)"
    by (rule spatial_join_all_matched) (simp_all add: phase1_two_names joined_two_names_def commune_cells_def)
  then show ?thesis by (simp add: phase1_two_names)
qed


section \<open>Properties of the count\<close>

lemma find_cols_example:
  "find_cols (columns joined_example) (None, None) = (Some ''code'', Some ''nom'')"
  by (simp add: joined_example_def lower_def lower_char_def code_aliases_def nom_aliases_def)

lemma count_example:
  "count_stops_by_commune joined_example = Inr [paris_agg, lyon_agg]"
  unfolding count_stops_by_commune_def find_cols_example
  by (simp add: joined_example_def commune_cells_def groupby_size_def key2_def
      List.map_filter_simps sort_values_desc_def make_agg_def get_dept_code_def startswith_def
      less_eq_prod_def less_prod_def Let_def paris_agg_def lyon_agg_def)

text \<open>
  C6.  Whatever the join, the rows of the result come in descending order of \<open>nb_arrets\<close>:
  each row's count is at least the count of every row after it.  Nothing is said of the
  order among rows of equal count.
\<close>

theorem count_sorted_descending:
  assumes "count_stops_by_commune joined_gdf = Inr result"
  shows "sorted_wrt (\<lambda>a b. nb_arrets b \<le> nb_arrets a) result"
proof -
  from count_stops_cases [of joined_gdf] assms obtain cc nc
    where cols: "find_cols (columns joined_gdf) (None, None) = (Some cc, nc)"
    by auto
  have "\<exists>xs. result = sort_values_desc xs"
  proof (cases nc)
    case None
    with cols assms show ?thesis by (auto simp: count_stops_None)
  next
    case (Some nom)
    with cols assms show ?thesis by (auto simp: count_stops_Some)
  qed
  then obtain xs where "result = sort_values_desc xs" ..
  with sorted_sort_values_desc [of xs] show ?thesis
    by (simp add: sorted_wrt_map)
qed

theorem count_sorted_descending_example:
  "count_stops_by_commune joined_example = Inr [paris_agg, lyon_agg] \<and>
   sorted_wrt (\<lambda>a b. nb_arrets b \<le> nb_arrets a) [paris_agg, lyon_agg]"
  using count_sorted_descending [OF count_example] count_example by blast

text \<open>
  C8.  Every row of the result has a count of at least 1, and its identifier is the
  identifier cell of some row of the join: a commune is listed only if a stop was
  resolved to it.
\<close>

theorem count_at_least_one:
  assumes "count_stops_by_commune joined_gdf = Inr result" and "r \<in> set result"
  shows "1 \<le> nb_arrets r \<and>
    (\<exists>code_col nom_col.
       find_cols (columns joined_gdf) (None, None) = (Some code_col, nom_col) \<and>
       (\<exists>jr \<in> set (rows joined_gdf). cells jr code_col = Some (code_commune_INSEE r)))"
proof -
  from count_stops_cases [of joined_gdf] assms obtain cc nc
    where cols: "find_cols (columns joined_gdf) (None, None) = (Some cc, nc)"
    by auto
  from count_stops_group [OF cols assms]
  have n: "nb_arrets r = length (filter (same_group cc nc r) (rows joined_gdf))"
    and ex: "\<exists>jr \<in> set (rows joined_gdf). same_group cc nc r jr"
    by blast+
  from ex have "filter (same_group cc nc r) (rows joined_gdf) \<noteq> []"
    by (simp add: filter_empty_conv)
  with n have "1 \<le> nb_arrets r"
    by (simp add: Suc_le_eq)
  moreover from ex have "\<exists>jr \<in> set (rows joined_gdf). cells jr cc = Some (code_commune_INSEE r)"
    by (auto simp: same_group_def)
  ultimately show ?thesis using cols by blast
qed

theorem count_at_least_one_example:
  "lyon_agg \<in> set [paris_agg, lyon_agg] \<and> 1 \<le> nb_arrets lyon_agg \<and>
   (\<exists>code_col nom_col.
       find_cols (columns joined_example) (None, None) = (Some code_col, nom_col) \<and>
       (\<exists>jr \<in> set (rows joined_example). cells jr code_col = Some (code_commune_INSEE lyon_agg)))"
  using count_at_least_one [OF count_example, of lyon_agg] by simp

text \<open>
  C7.  \<open>count_stops_by_commune\<close> fails if and only if no column label, put in lower
  case, is one of the identifier aliases; the failure is then the \<open>ValueError\<close> of line 165
  with the list of the columns that line 164 prints.  With an identifier column the count
  gives a result.
\<close>

theorem missing_code_column:
  "((\<exists>e. count_stops_by_commune joined_gdf = Inl e) \<longleftrightarrow>
      (\<forall>col \<in> set (columns joined_gdf). lower col \<notin> set code_aliases)) \<and>
   ((\<exists>e. count_stops_by_commune joined_gdf = Inl e) \<longrightarrow>
      count_stops_by_commune joined_gdf =
        Inl (ValueError ''Impossible de trouver la colonne du code INSEE'' (columns joined_gdf))) \<and>
   ((\<exists>col \<in> set (columns joined_gdf). lower col \<in> set code_aliases) \<longrightarrow>
      (\<exists>result. count_stops_by_commune joined_gdf = Inr result))"
  using count_stops_cases [of joined_gdf]
  by (auto simp: is_code_col_def)

theorem missing_code_column_example:
  "count_stops_by_commune joined_other_labels =
     Inl (ValueError ''Impossible de trouver la colonne du code INSEE''
       [''stop_lat'', ''stop_lon'', ''geometry'', ''index_right'', ''INSEE_COM'', ''NOM_COM'']) \<and>
   (\<exists>result. count_stops_by_commune joined_example = Inr result)"
proof -
  have none: "\<forall>col \<in> set (columns joined_other_labels). lower col \<notin> set code_aliases"
    by (simp add: joined_other_labels_def lower_def lower_char_def code_aliases_def)
  have some: "\<exists>col \<in> set (columns joined_example). lower col \<in> set code_aliases"
    by (simp add: joined_example_def lower_def lower_char_def code_aliases_def)
  from none missing_code_column [of joined_other_labels]
  have "count_stops_by_commune joined_other_labels =
     Inl (ValueError ''Impossible de trouver la colonne du code INSEE''
       (columns joined_other_labels))"
    by blast
  moreover from some missing_code_column [of joined_example]
  have "\<exists>result. count_stops_by_commune joined_example = Inr result"
    by blast
  ultimately show ?thesis
    by (simp add: joined_other_labels_def)
qed




text \<open>
  C5 (as amended).  In every row of the result the composite key is the department code,
  a hyphen and the identifier.  The department code is the first three characters of the
  identifier when it starts with 97 or 98 and its first two characters otherwise; for an
  identifier of at least three characters its length is therefore 3 exactly in the first
  case and 2 in the other.  A shorter identifier gives a shorter department code.
\<close>

theorem composite_key:
  assumes "count_stops_by_commune joined_gdf = Inr result" and "r \<in> set result"
  shows "code_dept_commune r = code_departement r @ ''-'' @ code_commune_INSEE r \<and>
    code_departement r =
      take (if startswith (code_commune_INSEE r) ''97'' \<or> startswith (code_commune_INSEE r) ''98''
            then 3 else 2) (code_commune_INSEE r) \<and>
    (3 \<le> length (code_commune_INSEE r) \<longrightarrow>
      (length (code_departement r) = 3 \<longleftrightarrow>
         startswith (code_commune_INSEE r) ''97'' \<or> startswith (code_commune_INSEE r) ''98'') \<and>
      (\<not> (startswith (code_commune_INSEE r) ''97'' \<or> startswith (code_commune_INSEE r) ''98'') \<longrightarrow>
         length (code_departement r) = 2))"
proof -
  from count_stops_cases [of joined_gdf] assms obtain cc nc
    where cols: "find_cols (columns joined_gdf) (None, None) = (Some cc, nc)"
    by auto
  from count_stops_group(3) [OF cols assms]
  have r: "r = make_agg (code_commune_INSEE r) (nom_commune r) (nb_arrets r)" .
  have "code_dept_commune (make_agg c n k) = code_departement (make_agg c n k) @ ''-'' @ c"
    and "code_departement (make_agg c n k) = get_dept_code c" for c n k
    by simp_all
  with r have key: "code_dept_commune r = code_departement r @ ''-'' @ code_commune_INSEE r"
    and dept: "code_departement r = get_dept_code (code_commune_INSEE r)"
    by metis+
  from dept have pre: "code_departement r =
      take (if startswith (code_commune_INSEE r) ''97'' \<or> startswith (code_commune_INSEE r) ''98''
            then 3 else 2) (code_commune_INSEE r)"
    by (simp add: get_dept_code_def Let_def)
  from pre have "3 \<le> length (code_commune_INSEE r) \<Longrightarrow>
      (length (code_departement r) = 3 \<longleftrightarrow>
         startswith (code_commune_INSEE r) ''97'' \<or> startswith (code_commune_INSEE r) ''98'') \<and>
      (\<not> (startswith (code_commune_INSEE r) ''97'' \<or> startswith (code_commune_INSEE r) ''98'') \<longrightarrow>
         length (code_departement r) = 2)"
    by (auto simp: min_def)
  with key pre show ?thesis by blast
qed

theorem composite_key_example:
  "paris_agg \<in> set [paris_agg, lyon_agg] \<and>
   code_dept_commune paris_agg = ''75-75056'' \<and>
   code_departement paris_agg = ''75'' \<and>
   3 \<le> length (code_commune_INSEE paris_agg) \<and>
   \<not> startswith (code_commune_INSEE paris_agg) ''97'' \<and>
   \<not> startswith (code_commune_INSEE paris_agg) ''98'' \<and>
   length (code_departement paris_agg) = 2"
  using composite_key [OF count_example, of paris_agg]
  by (simp add: paris_agg_def startswith_def)

lemma find_cols_short: "find_cols (columns joined_short_code) (None, None) = (Some ''code'', None)"
  by (simp add: joined_short_code_def lower_def lower_char_def code_aliases_def nom_aliases_def)

text \<open>The identifier \<open>97\<close> starts with 97, and its department code has two characters.\<close>

theorem composite_key_short_identifier:
  "count_stops_by_commune joined_short_code = Inr [short_agg] \<and>
   startswith (code_commune_INSEE short_agg) ''97'' \<and>
   length (code_departement short_agg) = 2"
  unfolding count_stops_by_commune_def find_cols_short
  by (simp add: joined_short_code_def groupby_size_def List.map_filter_simps
      sort_values_desc_def make_agg_def get_dept_code_def startswith_def Let_def short_agg_def)

text \<open>
  C1 (as amended).  The count of a row of the result is the number of rows of the join
  whose identifier cell, and whose name cell when a name column is in use, are those of
  the row.  Where every row of the join that carries the identifier also carries the name,
  this is the number of rows of the join resolved to the identifier.
\<close>

theorem count_is_group_size:
  assumes "find_cols (columns joined_gdf) (None, None) = (Some code_col, nom_col)"
    and "count_stops_by_commune joined_gdf = Inr result" and "r \<in> set result"
  shows "nb_arrets r = length (filter (same_group code_col nom_col r) (rows joined_gdf)) \<and>
    ((\<forall>jr \<in> set (rows joined_gdf).
        cells jr code_col = Some (code_commune_INSEE r) \<longrightarrow> same_group code_col nom_col r jr) \<longrightarrow>
     nb_arrets r =
       length (filter (\<lambda>jr. cells jr code_col = Some (code_commune_INSEE r)) (rows joined_gdf)))"
proof -
  from count_stops_group(1) [OF assms]
  have n: "nb_arrets r = length (filter (same_group code_col nom_col r) (rows joined_gdf))" .
  have "filter (same_group code_col nom_col r) (rows joined_gdf) =
        filter (\<lambda>jr. cells jr code_col = Some (code_commune_INSEE r)) (rows joined_gdf)"
    if "\<forall>jr \<in> set (rows joined_gdf).
        cells jr code_col = Some (code_commune_INSEE r) \<longrightarrow> same_group code_col nom_col r jr"
    using that by (intro filter_cong) (auto simp: same_group_def)
  with n show ?thesis by simp
qed

theorem count_is_group_size_example:
  "paris_agg \<in> set [paris_agg, lyon_agg] \<and>
   nb_arrets paris_agg = 2 \<and>
   length (filter (\<lambda>jr. cells jr ''code'' = Some ''75056'') (rows joined_example)) = 2"
proof -
  have dep: "\<forall>jr \<in> set (rows joined_example).
        cells jr ''code'' = Some (code_commune_INSEE paris_agg) \<longrightarrow>
        same_group ''code'' (Some ''nom'') paris_agg jr"
    by (simp add: joined_example_def commune_cells_def same_group_def paris_agg_def)
  from count_is_group_size [OF find_cols_example count_example, of paris_agg] dep
  show ?thesis
    by (simp add: paris_agg_def)
qed

text \<open>
  C9.  \<open>create_stops_geodataframe\<close> gives one row for each row of the stops, in the same
  order and with the same label and columns; the point of a row is built from the
  longitude and latitude of that row, and the frame is tagged \<open>EPSG:4326\<close>.
\<close>

theorem points_one_to_one:
  "crs (create_stops_geodataframe stops) = ''EPSG:4326'' \<and>
   length (prows (create_stops_geodataframe stops)) = length stops \<and>
   map (\<lambda>p. (idx p, srow p)) (prows (create_stops_geodataframe stops)) = stops \<and>
   map geometry (prows (create_stops_geodataframe stops)) =
     map (\<lambda>(i, s). \<lparr>geom_x = stop_lon s, geom_y = stop_lat s\<rparr>) stops"
  by (induction stops) (auto simp: create_stops_geodataframe_def Let_def)

section \<open>Properties of the join and of the run\<close>



text \<open>
  C3 (as amended).  When no stop lies within two communes, the join has one row for each
  line of the stop file with both coordinates, the counts of the result add up to the
  number of rows of the join that carry an identifier (and a name, when a name column is
  in use), hence to at most the number of those lines, with equality exactly when every
  row of the join carries them.
\<close>

theorem total_count_bound:
  assumes amo: "at_most_one_commune lib (create_stops_geodataframe (load_stops csv_file)) communes_gdf"
    and sj: "spatial_join lib (create_stops_geodataframe (load_stops csv_file)) communes_gdf = Inr joined"
    and cols: "find_cols (columns joined) (None, None) = (Some code_col, nom_col)"
    and res: "main lib communes_gdf csv_file = Inr result"
  shows "sum_list (map nb_arrets result)
           \<le> length (filter (\<lambda>s. stop_lat s \<noteq> None \<and> stop_lon s \<noteq> None) csv_file) \<and>
     length (rows joined) = length (filter (\<lambda>s. stop_lat s \<noteq> None \<and> stop_lon s \<noteq> None) csv_file) \<and>
     sum_list (map nb_arrets result) = length (filter (has_key code_col nom_col) (rows joined)) \<and>
     (sum_list (map nb_arrets result)
           = length (filter (\<lambda>s. stop_lat s \<noteq> None \<and> stop_lon s \<noteq> None) csv_file)
        \<longleftrightarrow> (\<forall>jr \<in> set (rows joined). has_key code_col nom_col jr))"
proof -
  let ?S = "create_stops_geodataframe (load_stops csv_file)"
  let ?n = "length (filter (\<lambda>s. stop_lat s \<noteq> None \<and> stop_lon s \<noteq> None) csv_file)"
  from spatial_join_merge [OF amo sj] obtain jn where
    rj: "rows joined = map (fold (assign_row jn) (ccolumns (reproject lib ?S communes_gdf)))
           (rows (phase1 lib ?S communes_gdf))"
    by blast
  have "length (rows joined) = length (prows ?S)"
    by (simp add: rj phase1_rows [OF amo])
  also have "\<dots> = ?n"
    by (simp add: prows_create length_load_stops)
  finally have len: "length (rows joined) = ?n" .
  from res sj have "count_stops_by_commune joined = Inr result"
    by (simp add: main_def Let_def)
  from count_stops_sum [OF cols this]
  have sum: "sum_list (map nb_arrets result) = length (filter (has_key code_col nom_col) (rows joined))" .
  have le: "length (filter (has_key code_col nom_col) (rows joined)) \<le> length (rows joined)"
    by simp
  have eq: "length (filter (has_key code_col nom_col) (rows joined)) = length (rows joined)
      \<longleftrightarrow> (\<forall>jr \<in> set (rows joined). has_key code_col nom_col jr)"
    by (rule length_filter_eq_length)
  from len sum le eq show ?thesis by simp
qed

section \<open>The properties on the worked run\<close>



text \<open>On the worked run three lines have coordinates and two stops are counted.\<close>

theorem total_count_bound_example:
  "main boxes communes_example csv_example = Inr [paris_agg] \<and>
   sum_list (map nb_arrets [paris_agg]) = 2 \<and>
   length (filter (\<lambda>s. stop_lat s \<noteq> None \<and> stop_lon s \<noteq> None) csv_example) = 3 \<and>
   length (rows joined_run) = 3 \<and>
   length (filter (has_key ''code'' (Some ''nom'')) (rows joined_run)) = 2"
  using total_count_bound [OF amo_example spatial_join_example find_cols_run main_example]
    main_example
  by (simp add: paris_agg_def csv_example_def)

section \<open>Where the counts differ from the number of stops\<close>

text \<open>One stop with coordinates, within two overlapping communes: the join has two rows for
  it and the counts of the result add up to 2.\<close>

theorem total_count_overlap:
  "main boxes communes_overlap csv_one = Inr overlap_result \<and>
   sum_list (map nb_arrets overlap_result) = 2 \<and>
   length (filter (\<lambda>s. stop_lat s \<noteq> None \<and> stop_lon s \<noteq> None) csv_one) = 1"
  unfolding main_def Let_def spatial_join_overlap sum.case count_stops_by_commune_def find_cols_overlap
  by (simp add: joined_overlap_def commune_cells_def groupby_size_def key2_def
      List.map_filter_simps sort_values_desc_def make_agg_def get_dept_code_def startswith_def
      less_eq_prod_def less_prod_def Let_def csv_one_def overlap_result_def)

text \<open>Two stops resolved to the identifier \<open>75056\<close>, under two names: the result has two
  rows for that identifier, each with the count 1.\<close>

theorem count_two_names:
  "main boxes communes_two_names csv_two = Inr two_names_result \<and>
   code_commune_INSEE (two_names_result ! 0) = ''75056'' \<and>
   nb_arrets (two_names_result ! 0) = 1 \<and>
   spatial_join boxes (create_stops_geodataframe (load_stops csv_two)) communes_two_names
     = Inr joined_two_names \<and>
   length (filter (\<lambda>jr. cells jr ''code'' = Some ''75056'') (rows joined_two_names)) = 2"
  unfolding main_def Let_def spatial_join_two_names sum.case count_stops_by_commune_def find_cols_two_names
  by (simp add: joined_two_names_def commune_cells_def groupby_size_def key2_def
      List.map_filter_simps sort_values_desc_def make_agg_def get_dept_code_def startswith_def
      less_eq_prod_def less_prod_def Let_def two_names_result_def)

end
